theory Spec2Isabelle
  imports Main "HOL-Library.Monad_Syntax"
begin

chapter \<open>SourcePawn front end: expression code generator and v2 parser\<close>

text \<open>
  A shallow embedding of \<^verbatim>\<open>compiler/code-generator.cpp\<close> (the tree-walking emitter for
  the two-register machine) and of \<^verbatim>\<open>v2/parser.cpp\<close> (the recursive-descent parser).
  Emission is modelled as state passing over the emitter: every call of an emitter
  primitive is appended to a trace, in call order. A failed \<^verbatim>\<open>assert\<close> is the
  result \<open>None\<close>.
\<close>

section \<open>Code generator: data model\<close>

datatype regid = sPRI | sALT

datatype ident =
    iVARIABLE | iREFERENCE | iARRAY | iREFARRAY | iARRAYCELL | iARRAYCHAR
  | iEXPRESSION | iCONSTEXPR | iFUNCTN | iVARARGS | iACCESSOR

datatype usage_flag = uCONST | uWRITTEN | uCALLBACK

datatype memuse = MEMUSE_STATIC | MEMUSE_DYNAMIC

datatype marker = sPARM

text \<open>
  Tokens of the code generator's trees. Character tokens are \<open>Ch c\<close>; the named
  multi-character tokens the emitter tests for are constructors; every other token is
  \<open>Tok n\<close>.
\<close>

datatype token = Ch char | tINC | tDEC | tlOR | tlAND | Tok nat

record symbol =
  sym_name :: string
  sym_ident :: ident
  sym_addr :: int
  sym_tag :: int
  sym_usage :: "usage_flag set"
  dim_array_level :: int
  dim_array_length :: int

text \<open>
  The \<^verbatim>\<open>value\<close> descriptor the type checker attaches to every expression. The result of
  the method \<^verbatim>\<open>canRematerialize()\<close> is carried as a field.
\<close>

record value_desc =
  ident :: ident
  constval :: int
  sym :: "symbol option"
  accessor :: "nat option"
  canRematerialize :: bool

record defarray =
  def_data :: "int list option"
  def_size :: int
  def_arraysize :: int
  def_addr :: int

record arginfo =
  arg_ident :: ident
  arg_usage :: "usage_flag set"
  arg_numdim :: int
  defvalue_val :: int
  defvalue_array :: defarray

text \<open>A user-defined operator: \<^verbatim>\<open>userop.sym\<close> and \<^verbatim>\<open>userop.oper\<close>.\<close>

record userop =
  uo_sym :: "symbol option"
  uo_oper :: "string option"

text \<open>
  The fields every \<^verbatim>\<open>Expr\<close> has: \<^verbatim>\<open>val_\<close> (here \<open>b_val\<close>), and the result of the virtual method
  \<^verbatim>\<open>lvalue()\<close>.
\<close>

record ExprBase =
  b_val :: value_desc
  b_lvalue :: bool

text \<open>
  The expression classes. The built-in operator \<^verbatim>\<open>oper_\<close> of a \<^verbatim>\<open>BinaryExpr\<close> is
  a function pointer in the source; it is modelled by the operator's name, \<open>None\<close> for
  the null pointer.
\<close>

datatype Expr =
    IsDefinedExpr ExprBase
  | UnaryExpr ExprBase token Expr bool
  | PreIncExpr ExprBase token Expr userop
  | PostIncExpr ExprBase token Expr userop
  | BinaryExpr ExprBase token Expr Expr "string option" userop userop int
  | LogicalExpr ExprBase token Expr Expr
  | TernaryExpr ExprBase Expr Expr Expr
  | CastExpr ExprBase Expr
  | SymbolExpr ExprBase symbol
  | RvalueExpr ExprBase Expr
  | CommaExpr ExprBase "Expr list"
  | ArrayExpr ExprBase int
  | ThisExpr ExprBase symbol
  | NullExpr ExprBase
  | NumberExpr ExprBase
  | FloatExpr ExprBase
  | StringExpr ExprBase int
  | IndexExpr ExprBase Expr Expr
  | FieldAccessExpr ExprBase token Expr "symbol option"
  | SizeofExpr ExprBase
  | CallExpr ExprBase symbol "(Expr \<times> arginfo) list"
  | DefaultArgExpr ExprBase arginfo
  | CallUserOpExpr ExprBase userop Expr

fun base :: "Expr \<Rightarrow> ExprBase" where
  "base (IsDefinedExpr b) = b"
| "base (UnaryExpr b _ _ _) = b"
| "base (PreIncExpr b _ _ _) = b"
| "base (PostIncExpr b _ _ _) = b"
| "base (BinaryExpr b _ _ _ _ _ _ _) = b"
| "base (LogicalExpr b _ _ _) = b"
| "base (TernaryExpr b _ _ _) = b"
| "base (CastExpr b _) = b"
| "base (SymbolExpr b _) = b"
| "base (RvalueExpr b _) = b"
| "base (CommaExpr b _) = b"
| "base (ArrayExpr b _) = b"
| "base (ThisExpr b _) = b"
| "base (NullExpr b) = b"
| "base (NumberExpr b) = b"
| "base (FloatExpr b) = b"
| "base (StringExpr b _) = b"
| "base (IndexExpr b _ _) = b"
| "base (FieldAccessExpr b _ _ _) = b"
| "base (SizeofExpr b) = b"
| "base (CallExpr b _ _) = b"
| "base (DefaultArgExpr b _) = b"
| "base (CallUserOpExpr b _ _) = b"

definition val :: "Expr \<Rightarrow> value_desc" where
  "val e = b_val (base e)"

definition lvalue :: "Expr \<Rightarrow> bool" where
  "lvalue e = b_lvalue (base e)"

fun AsDefaultArgExpr :: "Expr \<Rightarrow> bool" where
  "AsDefaultArgExpr (DefaultArgExpr _ _) = True"
| "AsDefaultArgExpr _ = False"

fun AsLogicalExpr :: "Expr \<Rightarrow> bool" where
  "AsLogicalExpr (LogicalExpr _ _ _ _) = True"
| "AsLogicalExpr _ = False"

text \<open>\<^verbatim>\<open>BinaryExpr::left()\<close> and \<^verbatim>\<open>BinaryExpr::right()\<close>; \<open>None\<close> off a \<^verbatim>\<open>BinaryExpr\<close>.\<close>

fun left :: "Expr \<Rightarrow> Expr option" where
  "left (BinaryExpr _ _ l _ _ _ _ _) = Some l"
| "left _ = None"

fun right :: "Expr \<Rightarrow> Expr option" where
  "right (BinaryExpr _ _ _ r _ _ _ _) = Some r"
| "right _ = None"

subsection \<open>The emitter\<close>

text \<open>One constructor for each primitive of the emitter that the generator calls.\<close>

datatype instr =
    Ldconst int regid
  | Rvalue value_desc
  | Store value_desc
  | Address symbol regid
  | Pushreg regid
  | Popreg regid
  | Move_alt
  | Moveto1
  | Swap1
  | Invert
  | Lneg
  | Neg
  | Inc value_desc
  | Dec value_desc
  | Inc_pri
  | Dec_pri
  | Ob_add
  | Oper string
  | Emit_userop userop "value_desc option"
  | Relop_prefix
  | Relop_suffix
  | Setlabel nat
  | Jumplabel nat
  | Jmp_eq0 nat
  | Jmp_ne0 nat
  | Cell2addr
  | Char2addr
  | Ffbounds "int option"
  | Memcopy int
  | Pushheaplist
  | Pop_static_heaplist
  | Popheaplist bool
  | Setheap_save int
  | Setheap_pri
  | Setheap int
  | Modheap int
  | Markheap memuse int
  | Ffcall symbol nat
  | Load_glbfn symbol
  | Markusage symbol usage_flag
  | Invoke_getter "nat option"
  | Invoke_setter "nat option" bool
  | Setdefarray "int list option" int int int bool
  | Markexpr marker

text \<open>
  The emitter's state as far as the generator observes it: the primitives called so far,
  in order, and the label counter. Modelled from the spec: \<^verbatim>\<open>getlabel\<close> hands out fresh
  label ids (the emitter itself is not part of the two source files).
\<close>

record emitter =
  trace :: "instr list"
  labnum :: nat

definition emit :: "instr \<Rightarrow> emitter \<Rightarrow> emitter" where
  "emit i s = s\<lparr>trace := trace s @ [i]\<rparr>"

definition getlabel :: "emitter \<Rightarrow> nat \<times> emitter" where
  "getlabel s = (labnum s, s\<lparr>labnum := Suc (labnum s)\<rparr>)"

text \<open>
  What the two source files use but do not define, as parameters: the token classes
  \<^verbatim>\<open>IsChainedOp\<close> and \<^verbatim>\<open>IsAssignOp\<close>, \<^verbatim>\<open>commutative\<close>, \<^verbatim>\<open>array_totalsize\<close>,
  \<^verbatim>\<open>cc_ok\<close>, the constants \<^verbatim>\<open>pc_tag_string\<close>, \<^verbatim>\<open>sCHARBITS\<close> and \<^verbatim>\<open>sizeof(cell)\<close>, and
  the total that \<^verbatim>\<open>pop_static_heaplist\<close> returns, which the emitter computes from the
  calls it has received so far. Cell arithmetic is on unbounded integers.
\<close>

record env =
  IsChainedOp :: "token \<Rightarrow> bool"
  IsAssignOp :: "token \<Rightarrow> bool"
  commutative :: "string option \<Rightarrow> bool"
  array_totalsize :: "symbol \<Rightarrow> int"
  cc_ok :: bool
  pc_tag_string :: int
  sCHARBITS :: int
  sizeof_cell :: int
  static_total :: "instr list \<Rightarrow> int"

definition pop_static_heaplist :: "env \<Rightarrow> emitter \<Rightarrow> int \<times> emitter" where
  "pop_static_heaplist E s = (static_total E (trace s), emit Pop_static_heaplist s)"

text \<open>\<^verbatim>\<open>if (c) prim();\<close> for a primitive that returns nothing.\<close>

definition emit_if :: "bool \<Rightarrow> instr \<Rightarrow> emitter \<Rightarrow> emitter" where
  "emit_if c i s = (if c then emit i s else s)"

text \<open>\<^verbatim>\<open>assert(c)\<close>: the run stops when \<open>c\<close> is false.\<close>

definition assert :: "bool \<Rightarrow> emitter \<Rightarrow> emitter option" where
  "assert c s = (if c then Some s else None)"

subsection \<open>Flattening helpers\<close>

text \<open>
  Modelled from the spec: \<^verbatim>\<open>FlattenLogical\<close> is declared outside the two source files.
  The spec has a \<^verbatim>\<open>LogicalExpr\<close> "flattened into a list of same-kind operands": operands
  of a nested \<^verbatim>\<open>LogicalExpr\<close> with the same token are spliced in, left to right; any other
  expression is one operand.
\<close>

fun FlattenLogical :: "token \<Rightarrow> Expr \<Rightarrow> Expr list" where
  "FlattenLogical tok (LogicalExpr b t l r) =
     (if t = tok then FlattenLogical tok l @ FlattenLogical tok r
      else [LogicalExpr b t l r])"
| "FlattenLogical tok e = [e]"

text \<open>
  Modelled from the spec: \<^verbatim>\<open>FlattenChainedCompares\<close> is declared outside the two source
  files. The spec has it "flatten a left-leaning chain of relational BinaryExprs": the
  root first, then its left operand while that is a chained \<^verbatim>\<open>BinaryExpr\<close>, so that the
  back of the vector is the leftmost comparison.
\<close>

fun FlattenChainedCompares :: "env \<Rightarrow> Expr \<Rightarrow> Expr list" where
  "FlattenChainedCompares E (BinaryExpr b t l r oper uop aop n) =
     BinaryExpr b t l r oper uop aop n #
       (case l of
          BinaryExpr lb lt ll lr loper luop laop ln \<Rightarrow>
            if IsChainedOp E lt then FlattenChainedCompares E l else []
        | _ \<Rightarrow> [])"
| "FlattenChainedCompares E e = []"

section \<open>Code generator: emission\<close>

text \<open>
  The \<^verbatim>\<open>switch (left_val.ident)\<close> of \<^verbatim>\<open>BinaryExpr::DoEmit\<close> for an assignment
  (lines 184 to 206): what is emitted before the right-hand side, and \<^verbatim>\<open>saved_lhs\<close>.
\<close>

definition BinaryExpr_assign_lhs ::
  "value_desc \<Rightarrow> bool \<Rightarrow> string option \<Rightarrow> emitter \<Rightarrow> (bool \<times> emitter) option" where
  "BinaryExpr_assign_lhs left_val left_lvalue oper s =
     (if ident left_val = iARRAYCELL \<or> ident left_val = iARRAYCHAR
         \<or> ident left_val = iARRAY \<or> ident left_val = iREFARRAY then
        (if oper \<noteq> None then
           Some (True, emit (Rvalue left_val) (emit (Pushreg sPRI) s))
         else Some (False, s))
      else if ident left_val = iACCESSOR then
        Some (True, emit_if (oper \<noteq> None) (Rvalue left_val) (emit (Pushreg sPRI) s))
      else if \<not> left_lvalue then None
      else Some (False, emit_if (oper \<noteq> None) (Rvalue left_val) s))"

text \<open>
  The \<^verbatim>\<open>switch (arg->ident)\<close> of \<^verbatim>\<open>CallExpr::DoEmit\<close> (lines 627 to 664), for one
  argument whose value is in PRI.
\<close>

definition CallExpr_pass_arg ::
  "value_desc \<Rightarrow> bool \<Rightarrow> arginfo \<Rightarrow> emitter \<Rightarrow> emitter option" where
  "CallExpr_pass_arg v lval arg s =
     (if arg_ident arg = iVARARGS then
        do {
          s \<leftarrow> (if ident v = iVARIABLE \<or> ident v = iREFERENCE then
                  (case sym v of
                     None \<Rightarrow> None
                   | Some vsym \<Rightarrow>
                       if \<not> lval then None
                       else if uCONST \<in> sym_usage vsym \<and> uCONST \<notin> arg_usage arg then
                         Some (emit Setheap_pri (emit (Rvalue v) s))
                       else if lval then Some (emit (Address vsym sPRI) s)
                       else Some (emit Setheap_pri s))
                else if ident v = iCONSTEXPR \<or> ident v = iEXPRESSION then
                  Some (emit Setheap_pri s)
                else Some s);
          Some (case sym v of None \<Rightarrow> s | Some vsym \<Rightarrow> emit (Markusage vsym uWRITTEN) s)
        }
      else if arg_ident arg = iVARIABLE \<or> arg_ident arg = iREFARRAY then Some s
      else if arg_ident arg = iREFERENCE then
        do {
          s \<leftarrow> (if ident v = iVARIABLE \<or> ident v = iREFERENCE then
                  (case sym v of
                     None \<Rightarrow> None
                   | Some vsym \<Rightarrow> Some (emit (Address vsym sPRI) s))
                else Some s);
          Some (case sym v of None \<Rightarrow> s | Some vsym \<Rightarrow> emit (Markusage vsym uWRITTEN) s)
        }
      else None)"

subsection \<open>Measures for the recursion of the emitter\<close>

fun maxsize :: "Expr list \<Rightarrow> nat" where
  "maxsize [] = 0"
| "maxsize (e # es) = max (size e) (maxsize es)"

lemma maxsize_ge: "x \<in> set es \<Longrightarrow> size x \<le> maxsize es"
  by (induction es) auto

lemma maxsize_le: "(\<And>x. x \<in> set es \<Longrightarrow> size x \<le> n) \<Longrightarrow> maxsize es \<le> n"
  by (induction es) auto

lemma maxsize_butlast: "maxsize (butlast es) \<le> maxsize es"
  by (rule maxsize_le) (auto dest: in_set_butlastD maxsize_ge)

lemma size_CommaExpr: "x \<in> set es \<Longrightarrow> size x < size (CommaExpr b es)"
  by (induction es) auto

lemma size_CallExpr: "x \<in> set argv \<Longrightarrow> size (fst x) < size (CallExpr b sm argv)"
  by (induction argv) auto

lemma FlattenChained_size: "x \<in> set (FlattenChainedCompares E e) \<Longrightarrow> size x \<le> size e"
  by (induction E e rule: FlattenChainedCompares.induct) (auto split: Expr.splits if_splits)

lemma size_left: "left x = Some l \<Longrightarrow> size l < size x"
  by (cases x) auto

lemma size_right: "right x = Some r \<Longrightarrow> size r < size x"
  by (cases x) auto

lemma FlattenLogical_size: "x \<in> set (FlattenLogical tok e) \<Longrightarrow> size x \<le> size e"
  by (induction tok e rule: FlattenLogical.induct) (auto split: if_splits)

lemma FlattenLogical_ne: "FlattenLogical tok e \<noteq> []"
  by (induction tok e rule: FlattenLogical.induct) auto

lemma maxsize_last: "es \<noteq> [] \<Longrightarrow> size (last es) \<le> maxsize es"
  by (rule maxsize_ge) simp

lemma maxsize_nth: "i < length es \<Longrightarrow> size (es ! i) \<le> maxsize es"
  by (rule maxsize_ge) simp

lemma maxsize_Flatten: "maxsize (FlattenChainedCompares E e) \<le> size e"
  by (rule maxsize_le) (rule FlattenChained_size)

lemma maxsize_FlattenLogical: "maxsize (FlattenLogical tok e) \<le> size e"
  by (rule maxsize_le) (rule FlattenLogical_size)

lemma maxsize_Comma: "maxsize es < size (CommaExpr b es)"
proof -
  have "maxsize es \<le> size (CommaExpr b es) - 1"
    by (rule maxsize_le) (use size_CommaExpr in fastforce)
  moreover have "0 < size (CommaExpr b es)" by simp
  ultimately show ?thesis by linarith
qed

lemma maxsize_Call: "maxsize (map fst argv) < size (CallExpr b sm argv)"
proof -
  have "maxsize (map fst argv) \<le> size (CallExpr b sm argv) - 1"
    by (rule maxsize_le) (use size_CallExpr in fastforce)
  moreover have "0 < size (CallExpr b sm argv)" by simp
  ultimately show ?thesis by linarith
qed


lemma maxsize_append: "maxsize (a @ b) = max (maxsize a) (maxsize b)"
  by (induction a) auto

lemma Logical_seq_lt:
  "maxsize (FlattenLogical tok (LogicalExpr b tok l r)) < size (LogicalExpr b tok l r)"
proof -
  have "maxsize (FlattenLogical tok l) \<le> size l" "maxsize (FlattenLogical tok r) \<le> size r"
    by (rule maxsize_FlattenLogical)+
  then show ?thesis by (simp add: maxsize_append)
qed

lemma Logical_butlast_lt:
  "2 * maxsize (butlast (FlattenLogical tok (LogicalExpr b tok l r))) + 1
     < 2 * size (LogicalExpr b tok l r)"
  using Logical_seq_lt [of tok b l r]
        maxsize_butlast [of "FlattenLogical tok (LogicalExpr b tok l r)"]
  by linarith

lemma Logical_last_lt:
  "size (last (FlattenLogical tok (LogicalExpr b tok l r))) < size (LogicalExpr b tok l r)"
  using Logical_seq_lt [of tok b l r]
        maxsize_last [OF FlattenLogical_ne, of tok "LogicalExpr b tok l r"]
  by linarith

lemma Chain_left_lt:
  assumes "FlattenChainedCompares E e \<noteq> []"
      and "left (last (FlattenChainedCompares E e)) = Some l"
  shows "size l < size e"
  using size_left [OF assms(2)] maxsize_last [OF assms(1)] maxsize_Flatten [of E e]
  by linarith

lemma Chain_loop_lt:
  assumes "FlattenChainedCompares E e \<noteq> []"
  shows "2 * maxsize (FlattenChainedCompares E e) - Suc 0 < 2 * size e"
proof -
  have "0 < size e" using assms by (cases e) auto
  then show ?thesis using maxsize_Flatten [of E e] by linarith
qed

lemma Chain_right_lt:
  assumes "exprs \<noteq> []" and "right (last exprs) = Some r"
  shows "2 * size r < 2 * maxsize exprs - Suc 0"
  using size_right [OF assms(2)] maxsize_last [OF assms(1)] by linarith

lemma Chain_butlast_le:
  "2 * maxsize (butlast exprs) - Suc 0 < 2 * maxsize exprs - Suc 0 \<or>
   2 * maxsize (butlast exprs) - Suc 0 = 2 * maxsize exprs - Suc 0"
  using maxsize_butlast [of exprs] by linarith

lemma Call_nth_lt:
  "i < length argv \<Longrightarrow> 2 * size (fst (argv ! i)) < Suc (2 * maxsize (map fst argv))"
  using maxsize_nth [of i "map fst argv"] by simp


lemma maxsize_size_list: "maxsize es \<le> size_list size es"
  by (induction es) auto

lemma maxsize_size_list_fst: "maxsize (map fst argv) \<le> size_list (size_prod size (\<lambda>x. 0)) argv"
  by (induction argv) auto

lemma Comma_lt: "2 * maxsize exprs < Suc (2 * size_list size exprs) \<or> P"
  using maxsize_size_list [of exprs] by linarith

lemma Call_lt: "2 * maxsize (map fst argv) < Suc (2 * size_list (size_prod size (\<lambda>x. 0)) argv) \<or> P"
  using maxsize_size_list_fst [of argv] by linarith

definition gen_m1 where
  "gen_m1 =
     case_sum
       (case_sum (case_sum (\<lambda>(E, e, s). 2 * size e) (\<lambda>(E, e, j, t, f, s). 2 * size e))
                 (case_sum (\<lambda>(E, e, s). 2 * size e) (\<lambda>(E, root, l, r, s). 2 * size r)))
       (case_sum (case_sum (\<lambda>(E, e, s). 2 * size e) (\<lambda>(E, exprs, l, c, s). 2 * maxsize exprs - 1))
                 (case_sum (\<lambda>(E, tok, j, t, f, es, s). 2 * maxsize es + 1)
                    (case_sum (\<lambda>(E, es, s). 2 * maxsize es + 1)
                              (\<lambda>(E, argv, n, s). 2 * maxsize (map fst argv) + 1))))"

definition gen_m2 where
  "gen_m2 =
     case_sum
       (case_sum (case_sum (\<lambda>(E, e, s). 2) (\<lambda>(E, e, j, t, f, s). if AsLogicalExpr e then 0 else 3))
                 (case_sum (\<lambda>(E, e, s). 1) (\<lambda>(E, root, l, r, s). 3)))
       (case_sum (case_sum (\<lambda>(E, e, s). 0) (\<lambda>(E, exprs, l, c, s). length exprs))
                 (case_sum (\<lambda>(E, tok, j, t, f, es, s). length es)
                    (case_sum (\<lambda>(E, es, s). length es)
                              (\<lambda>(E, argv, n, s). n))))"


subsection \<open>The emitter's methods\<close>

text \<open>
  \<^verbatim>\<open>Expr::Emit\<close>, the virtual \<^verbatim>\<open>EmitTest\<close> (overridden by \<^verbatim>\<open>LogicalExpr\<close>), the
  virtual \<^verbatim>\<open>DoEmit\<close> of every class, \<^verbatim>\<open>BinaryExpr::EmitInner\<close> and
  \<^verbatim>\<open>BinaryExpr::EmitChainedCompare\<close>. The loops of the source are the functions
  \<open>ChainLoop\<close> (the \<^verbatim>\<open>while\<close> of \<^verbatim>\<open>EmitChainedCompare\<close>, popping from the back),
  \<open>LogicalLoop\<close> (the \<^verbatim>\<open>for\<close> of \<^verbatim>\<open>LogicalExpr::EmitTest\<close> over all operands but
  the last), \<open>CommaLoop\<close> and \<open>CallArgs\<close> (the arguments of a call, from the last
  index down to 0).
\<close>

function (sequential)
    Emit :: "env \<Rightarrow> Expr \<Rightarrow> emitter \<Rightarrow> emitter option"
and EmitTest :: "env \<Rightarrow> Expr \<Rightarrow> bool \<Rightarrow> nat \<Rightarrow> nat \<Rightarrow> emitter \<Rightarrow> emitter option"
and DoEmit :: "env \<Rightarrow> Expr \<Rightarrow> emitter \<Rightarrow> emitter option"
and EmitInner :: "env \<Rightarrow> Expr \<Rightarrow> Expr \<Rightarrow> Expr \<Rightarrow> emitter \<Rightarrow> emitter option"
and EmitChainedCompare :: "env \<Rightarrow> Expr \<Rightarrow> emitter \<Rightarrow> emitter option"
and ChainLoop :: "env \<Rightarrow> Expr list \<Rightarrow> Expr \<Rightarrow> nat \<Rightarrow> emitter \<Rightarrow> emitter option"
and LogicalLoop :: "env \<Rightarrow> token \<Rightarrow> bool \<Rightarrow> nat \<Rightarrow> nat \<Rightarrow> Expr list \<Rightarrow> emitter \<Rightarrow> emitter option"
and CommaLoop :: "env \<Rightarrow> Expr list \<Rightarrow> emitter \<Rightarrow> emitter option"
and CallArgs :: "env \<Rightarrow> (Expr \<times> arginfo) list \<Rightarrow> nat \<Rightarrow> emitter \<Rightarrow> emitter option"
where
  "Emit E e s =
     (if ident (val e) = iCONSTEXPR then Some (emit (Ldconst (constval (val e)) sPRI) s)
      else DoEmit E e s)"

| "EmitTest E (LogicalExpr b tok l r) jump_on_true taken fallthrough s =
     (let sequence = FlattenLogical tok (LogicalExpr b tok l r) in
      if sequence = [] then None
      else do {
        s \<leftarrow> LogicalLoop E tok jump_on_true taken fallthrough (butlast sequence) s;
        EmitTest E (last sequence) jump_on_true taken fallthrough s
      })"
| "EmitTest E e jump_on_true taken fallthrough s =
     do {
       s \<leftarrow> Emit E e s;
       Some (if jump_on_true then emit (Jmp_ne0 taken) s else emit (Jmp_eq0 taken) s)
     }"

| "LogicalLoop E tok jump_on_true taken fallthrough [] s = Some s"
| "LogicalLoop E tok jump_on_true taken fallthrough (expr # rest) s =
     do {
       s \<leftarrow> (if tok = tlOR then
               (if jump_on_true then EmitTest E expr True taken fallthrough s
                else EmitTest E expr True fallthrough taken s)
             else if tok \<noteq> tlAND then None
             else
               (if jump_on_true then EmitTest E expr False fallthrough taken s
                else EmitTest E expr False taken fallthrough s));
       LogicalLoop E tok jump_on_true taken fallthrough rest s
     }"

| "DoEmit E (IsDefinedExpr b) s = None"
| "DoEmit E (UnaryExpr b tok expr userop) s =
     do {
       s \<leftarrow> Emit E expr s;
       if userop then Some s
       else if tok = Ch CHR ''~'' then Some (emit Invert s)
       else if tok = Ch CHR ''!'' then Some (emit Lneg s)
       else if tok = Ch CHR ''-'' then Some (emit Neg s)
       else None
     }"
| "DoEmit E (PreIncExpr b tok expr userop) s =
     do {
       s \<leftarrow> Emit E expr s;
       let v = val expr;
       let tmp = v;
       if ident v \<noteq> iACCESSOR then do {
         let s = (if uo_sym userop \<noteq> None then emit (Emit_userop userop (Some tmp)) s
                  else if tok = tINC then emit (Inc tmp) s
                  else emit (Dec tmp) s);
         Some (emit (Rvalue tmp) s)
       } else do {
         let s = emit (Pushreg sPRI) s;
         let s = emit (Invoke_getter (accessor v)) s;
         let s = (if uo_sym userop \<noteq> None then emit (Emit_userop userop (Some tmp)) s
                  else if tok = tINC then emit Inc_pri s
                  else emit Dec_pri s);
         let s = emit (Popreg sALT) s;
         Some (emit (Invoke_setter (accessor v) True) s)
       }
     }"
| "DoEmit E (PostIncExpr b tok expr userop) s =
     do {
       s \<leftarrow> Emit E expr s;
       let v = val expr;
       let tmp = v;
       if ident v \<noteq> iACCESSOR then do {
         let saveresult = (ident v = iARRAYCELL \<or> ident v = iARRAYCHAR);
         let s = emit_if saveresult (Pushreg sPRI) s;
         let s = emit (Rvalue tmp) s;
         let s = emit_if saveresult Swap1 s;
         let s = (if uo_sym userop \<noteq> None then emit (Emit_userop userop (Some tmp)) s
                  else if tok = tINC then emit (Inc tmp) s
                  else emit (Dec tmp) s);
         Some (emit_if saveresult (Popreg sPRI) s)
       } else do {
         let s = emit (Pushreg sPRI) s;
         let s = emit (Invoke_getter (accessor v)) s;
         let s = emit Move_alt s;
         let s = emit Swap1 s;
         let s = emit (Pushreg sPRI) s;
         let s = emit Moveto1 s;
         let s = (if uo_sym userop \<noteq> None then emit (Emit_userop userop (Some tmp)) s
                  else if tok = tINC then emit Inc_pri s
                  else emit Dec_pri s);
         let s = emit (Popreg sALT) s;
         let s = emit (Invoke_setter (accessor v) False) s;
         Some (emit (Popreg sPRI) s)
       }
     }"
| "DoEmit E (BinaryExpr b tok left0 right0 oper userop assignop array_copy_length) s =
     (if IsChainedOp E tok
      then EmitChainedCompare E (BinaryExpr b tok left0 right0 oper userop assignop array_copy_length) s
      else
       (let left_val = val left0 in
        do {
          s \<leftarrow> (if IsAssignOp E tok \<or> ident left_val \<noteq> iCONSTEXPR then Emit E left0 s
                else Some s);
          (saved_lhs, s) \<leftarrow> (if IsAssignOp E tok
                              then BinaryExpr_assign_lhs left_val (lvalue left0) oper s
                              else Some (False, s));
          if IsAssignOp E tok \<and> array_copy_length \<noteq> 0 then do {
            s \<leftarrow> assert (oper = None) s;
            s \<leftarrow> assert (uo_sym assignop = None) s;
            let s = emit (Pushreg sPRI) s;
            s \<leftarrow> Emit E right0 s;
            let s = emit (Popreg sALT) s;
            Some (emit (Memcopy (array_copy_length * sizeof_cell E)) s)
          } else do {
            s \<leftarrow> assert (array_copy_length = 0) s;
            s \<leftarrow> assert (ident left_val \<noteq> iARRAY \<and> ident left_val \<noteq> iREFARRAY) s;
            s \<leftarrow> EmitInner E (BinaryExpr b tok left0 right0 oper userop assignop array_copy_length)
                   left0 right0 s;
            if IsAssignOp E tok then do {
              let s = emit_if saved_lhs (Popreg sALT) s;
              let tmp = left_val;
              let s = emit_if (uo_sym assignop \<noteq> None) (Emit_userop assignop None) s;
              Some (emit (Store tmp) s)
            } else Some s
          }
        }))"
| "DoEmit E (LogicalExpr b tok l r) s =
     do {
       let (done_l, s) = getlabel s;
       let (taken, s) = getlabel s;
       let (fallthrough, s) = getlabel s;
       s \<leftarrow> EmitTest E (LogicalExpr b tok l r) True taken fallthrough s;
       let s = emit (Setlabel fallthrough) s;
       let s = emit (Ldconst 0 sPRI) s;
       let s = emit (Jumplabel done_l) s;
       let s = emit (Setlabel taken) s;
       let s = emit (Ldconst 1 sPRI) s;
       Some (emit (Setlabel done_l) s)
     }"
| "DoEmit E (TernaryExpr b first second third) s =
     do {
       s \<leftarrow> Emit E first s;
       let (flab1, s) = getlabel s;
       let (flab2, s) = getlabel s;
       let s = emit Pushheaplist s;
       let s = emit (Jmp_eq0 flab1) s;
       s \<leftarrow> Emit E second s;
       let (total1, s) = pop_static_heaplist E s;
       let s = emit_if (total1 \<noteq> 0) (Setheap_save (total1 * sizeof_cell E)) s;
       let s = emit Pushheaplist s;
       let s = emit (Jumplabel flab2) s;
       let s = emit (Setlabel flab1) s;
       s \<leftarrow> Emit E third s;
       let (total2, s) = pop_static_heaplist E s;
       let s = emit_if (total2 \<noteq> 0) (Setheap_save (total2 * sizeof_cell E)) s;
       let s = emit (Setlabel flab2) s;
       Some (emit_if (ident (b_val b) = iREFARRAY \<and> (total1 \<noteq> 0 \<and> total2 \<noteq> 0))
               (Markheap MEMUSE_DYNAMIC 0) s)
     }"
| "DoEmit E (CastExpr b expr) s = Emit E expr s"
| "DoEmit E (SymbolExpr b sm) s =
     (if sym_ident sm = iCONSTEXPR then Some (emit (Ldconst (sym_addr sm) sPRI) s)
      else if sym_ident sm = iARRAY \<or> sym_ident sm = iREFARRAY then
        Some (emit (Address sm sPRI) s)
      else if sym_ident sm = iFUNCTN then
        Some (emit (Markusage sm uCALLBACK) (emit (Load_glbfn sm) s))
      else if sym_ident sm = iVARIABLE \<or> sym_ident sm = iREFERENCE then Some s
      else None)"
| "DoEmit E (RvalueExpr b expr) s =
     do {
       s \<leftarrow> Emit E expr s;
       let v = val expr;
       Some (emit (Rvalue v) s)
     }"
| "DoEmit E (CommaExpr b exprs) s = CommaLoop E exprs s"
| "DoEmit E (ArrayExpr b addr) s = Some (emit (Ldconst addr sPRI) s)"
| "DoEmit E (ThisExpr b sm) s =
     Some (emit_if (sym_ident sm = iREFARRAY) (Address sm sPRI) s)"
| "DoEmit E (NullExpr b) s = None"
| "DoEmit E (NumberExpr b) s = None"
| "DoEmit E (FloatExpr b) s = None"
| "DoEmit E (StringExpr b lit_addr) s = Some (emit (Ldconst lit_addr sPRI) s)"
| "DoEmit E (IndexExpr b base0 expr) s =
     do {
       s \<leftarrow> Emit E base0 s;
       case sym (val base0) of
         None \<Rightarrow> None
       | Some sm \<Rightarrow>
          (let magic_string = (sym_tag sm = pc_tag_string E \<and> dim_array_level sm = 0);
               idxval = val expr
           in do {
             s \<leftarrow> (if ident idxval = iCONSTEXPR then
                     (if \<not> (sym_tag sm = pc_tag_string E \<and> dim_array_level sm = 0) then
                        (if constval idxval \<noteq> 0 then
                           Some (emit Ob_add (emit (Ldconst (constval idxval * 4) sALT) s))
                         else Some s)
                      else
                        (if constval idxval \<noteq> 0 then
                           Some (emit Ob_add (emit (Ldconst (constval idxval) sALT) s))
                         else Some s))
                   else do {
                     let s = emit (Pushreg sPRI) s;
                     s \<leftarrow> Emit E expr s;
                     let s =
                       (if \<not> magic_string then
                          emit Cell2addr
                            (if dim_array_length sm \<noteq> 0
                             then emit (Ffbounds (Some (dim_array_length sm - 1))) s
                             else emit (Ffbounds None) s)
                        else
                          emit Char2addr
                            (if dim_array_length sm \<noteq> 0
                             then emit (Ffbounds (Some (dim_array_length sm * (32 div sCHARBITS E) - 1))) s
                             else emit (Ffbounds None) s));
                     let s = emit (Popreg sALT) s;
                     Some (emit Ob_add s)
                   });
             if dim_array_level sm > 0 then do {
               let v = (val base0)\<lparr>ident := iARRAYCELL\<rparr>;
               let s = emit (Pushreg sPRI) s;
               let s = emit (Rvalue v) s;
               let s = emit (Popreg sALT) s;
               Some (emit Ob_add s)
             } else Some s
           })
     }"
| "DoEmit E (FieldAccessExpr b tok base0 field) s =
     do {
       s \<leftarrow> assert (tok = Ch CHR ''.'') s;
       s \<leftarrow> Emit E base0 s;
       Some (case field of
               None \<Rightarrow> s
             | Some f \<Rightarrow>
                 if sym_addr f \<noteq> 0 then emit Ob_add (emit (Ldconst (sym_addr f * 4) sALT) s)
                 else s)
     }"
| "DoEmit E (SizeofExpr b) s = None"
| "DoEmit E (CallExpr b sm argv) s =
     do {
       s \<leftarrow> (case sym (b_val b) of
               None \<Rightarrow> Some s
             | Some vsym \<Rightarrow>
                 (let retsize = array_totalsize E vsym in do {
                    s \<leftarrow> assert (retsize > 0 \<or> \<not> cc_ok E) s;
                    let s = emit (Modheap (retsize * sizeof_cell E)) s;
                    let s = emit (Pushreg sALT) s;
                    Some (emit (Markheap MEMUSE_STATIC retsize) s)
                  }));
       let s = emit Pushheaplist s;
       s \<leftarrow> CallArgs E argv (length argv) s;
       let s = emit (Ffcall sm (length argv)) s;
       let s = emit_if (sym (b_val b) \<noteq> None) (Popreg sPRI) s;
       Some (emit (Popheaplist True) s)
     }"
| "DoEmit E (DefaultArgExpr b arg) s =
     (if arg_ident arg = iREFARRAY then
        (let d = defvalue_array arg; is_const = (uCONST \<in> arg_usage arg) in do {
           let s = emit (Setdefarray (def_data d) (def_size d) (def_arraysize d) (def_addr d) is_const) s;
           if def_data d \<noteq> None then assert (arg_numdim arg > 0) s else Some s
         })
      else if arg_ident arg = iREFERENCE then
        Some (emit (Markheap MEMUSE_STATIC 1) (emit (Setheap (defvalue_val arg)) s))
      else if arg_ident arg = iVARIABLE then
        Some (emit (Ldconst (defvalue_val arg) sPRI) s)
      else None)"
| "DoEmit E (CallUserOpExpr b userop expr) s =
     do {
       s \<leftarrow> Emit E expr s;
       if uo_oper userop \<noteq> None then
         (let v = val expr in Some (emit (Emit_userop userop (Some v)) s))
       else Some (emit (Emit_userop userop None) s)
     }"

| "CommaLoop E [] s = Some s"
| "CommaLoop E (expr # rest) s = do { s \<leftarrow> Emit E expr s; CommaLoop E rest s }"

| "CallArgs E argv 0 s = Some s"
| "CallArgs E argv (Suc i) s =
     (if \<not> i < length argv then None
      else
       (let expr = fst (argv ! i); arg = snd (argv ! i) in do {
          s \<leftarrow> Emit E expr s;
          s \<leftarrow> (if AsDefaultArgExpr expr then Some (emit (Pushreg sPRI) s)
                else
                 (let v = val expr; lval = lvalue expr in do {
                    s \<leftarrow> CallExpr_pass_arg v lval arg s;
                    let s = emit (Pushreg sPRI) s;
                    Some (emit (Markexpr sPARM) s)
                  }));
          CallArgs E argv i s
        }))"

| "EmitChainedCompare E e s =
     (let exprs = FlattenChainedCompares E e in
      if exprs = [] then None
      else
        (case left (last exprs) of
           None \<Rightarrow> None
         | Some l \<Rightarrow> do {
             s \<leftarrow> (if ident (val l) \<noteq> iCONSTEXPR then Emit E l s else Some s);
             ChainLoop E exprs l 0 s
           }))"

| "ChainLoop E exprs l count s =
     (if exprs = [] then Some s
      else
        (let root = last exprs; exprs = butlast exprs in
         case right root of
           None \<Rightarrow> None
         | Some r \<Rightarrow> do {
             let s = emit_if (count \<noteq> 0) Relop_prefix s;
             s \<leftarrow> EmitInner E root l r s;
             let s = emit_if (count \<noteq> 0) Relop_suffix s;
             ChainLoop E exprs r (count + 1) s
           }))"

| "EmitInner E (BinaryExpr rb rtok rl rr oper userop assignop acl) l r s =
     (let left_val = val l; right_val = val r in
      do {
        s \<leftarrow> (if ident left_val = iCONSTEXPR then do {
                s \<leftarrow> (if ident right_val = iCONSTEXPR
                      then Some (emit (Ldconst (constval right_val) sPRI) s)
                      else Emit E r s);
                Some (emit (Ldconst (constval left_val) sALT) s)
              } else
               (let must_save_lhs = (oper \<noteq> None \<or> \<not> canRematerialize left_val) in
                if ident right_val = iCONSTEXPR then
                  (if commutative E oper then
                     Some (emit (Ldconst (constval right_val) sALT) s)
                   else do {
                     let s = emit_if must_save_lhs (Pushreg sPRI) s;
                     let s = emit (Ldconst (constval right_val) sPRI) s;
                     Some (emit_if must_save_lhs (Popreg sALT) s)
                   })
                else do {
                  let s = emit_if must_save_lhs (Pushreg sPRI) s;
                  s \<leftarrow> Emit E r s;
                  Some (emit_if must_save_lhs (Popreg sALT) s)
                }));
        Some (case oper of
                None \<Rightarrow> s
              | Some op \<Rightarrow>
                  if uo_sym userop \<noteq> None then emit (Emit_userop userop None) s
                  else emit (Oper op) s)
      })"
| "EmitInner E root l r s = None"
  by pat_completeness auto


termination
  apply (relation "measures [gen_m1, gen_m2]")
  apply (simp_all add: gen_m1_def gen_m2_def Call_nth_lt Chain_butlast_le Chain_right_lt
         Chain_loop_lt Chain_left_lt Logical_last_lt Comma_lt Call_lt
         del: FlattenLogical.simps)
  apply (simp_all add: max_def del: FlattenLogical.simps)
  subgoal for b tok l r using Logical_butlast_lt [of tok b l r] by simp
  subgoal for E b tok l r using Logical_last_lt [of tok b l r] by simp
  done

text \<open>
  The equations of \<open>Emit\<close>, \<open>EmitChainedCompare\<close> and \<open>ChainLoop\<close> match every call:
  they are unfolded by name only.
\<close>

declare Emit.simps [simp del] EmitChainedCompare.simps [simp del] ChainLoop.simps [simp del]
declare FlattenLogical.simps [simp del]

section \<open>Code generator: properties\<close>

subsection \<open>Emitting a list of primitives\<close>

definition emits :: "instr list \<Rightarrow> emitter \<Rightarrow> emitter" where
  "emits is s = s\<lparr>trace := trace s @ is\<rparr>"

lemma emit_emits: "emit i s = emits [i] s"
  by (simp add: emit_def emits_def)

lemma emit_if_emits: "emit_if c i s = emits (if c then [i] else []) s"
  by (simp add: emit_if_def emit_def emits_def)

lemma emits_emits: "emits b (emits a s) = emits (a @ b) s"
  by (simp add: emits_def)

lemma emits_Nil: "emits [] s = s"
  by (simp add: emits_def)

definition oper_code :: "string option \<Rightarrow> userop \<Rightarrow> instr list" where
  "oper_code oper uop =
     (case oper of
        None \<Rightarrow> []
      | Some op \<Rightarrow> if uo_sym uop \<noteq> None then [Emit_userop uop None] else [Oper op])"

subsection \<open>The case table of \<^verbatim>\<open>EmitInner\<close>\<close>

text \<open>
  The case table as the specification words it, to be compared with \<open>EmitInner\<close>:
  both constants; only the left constant; otherwise, with \<open>must_save_lhs\<close>, a constant
  right operand under a commutative operator, a constant right operand otherwise, and a
  right operand that is emitted. The push and the pop go together: both are emitted when
  \<open>must_save_lhs\<close> holds and neither otherwise. \<open>oper_code\<close> is the operator applied at
  the end: the user operator if the node has one, else the built-in one, nothing for a plain
  store.
\<close>

definition EmitInner_case_table ::
  "env \<Rightarrow> string option \<Rightarrow> userop \<Rightarrow> Expr \<Rightarrow> Expr \<Rightarrow> emitter \<Rightarrow> emitter option" where
  "EmitInner_case_table E oper uop l r s =
     (let lhs = constval (val l); rhs = constval (val r);
          must_save_lhs = (oper \<noteq> None \<or> \<not> canRematerialize (val l));
          save = (if must_save_lhs then [Pushreg sPRI] else []);
          restore = (if must_save_lhs then [Popreg sALT] else [])
      in
      if ident (val l) = iCONSTEXPR \<and> ident (val r) = iCONSTEXPR then
        Some (emits ([Ldconst rhs sPRI, Ldconst lhs sALT] @ oper_code oper uop) s)
      else if ident (val l) = iCONSTEXPR then
        do { s' \<leftarrow> Emit E r s; Some (emits ([Ldconst lhs sALT] @ oper_code oper uop) s') }
      else if ident (val r) = iCONSTEXPR \<and> commutative E oper then
        Some (emits ([Ldconst rhs sALT] @ oper_code oper uop) s)
      else if ident (val r) = iCONSTEXPR then
        Some (emits (save @ [Ldconst rhs sPRI] @ restore @ oper_code oper uop) s)
      else
        do { s' \<leftarrow> Emit E r (emits save s); Some (emits (restore @ oper_code oper uop) s') })"

text \<open>
  The tree of \<^verbatim>\<open>int a = 1 + 2 * 3;\<close> as the generator receives it: the literals are
  \<^verbatim>\<open>CONSTEXPR\<close>, the two operator nodes are not folded (\<^verbatim>\<open>EXPRESSION\<close>), and \<open>a\<close> is a
  variable that can be rematerialized. \<open>example_env\<close> is one choice of the parameters.
\<close>

definition no_userop :: userop where
  "no_userop = \<lparr>uo_sym = None, uo_oper = None\<rparr>"

definition const_base :: "int \<Rightarrow> ExprBase" where
  "const_base n =
     \<lparr>b_val = \<lparr>ident = iCONSTEXPR, constval = n, sym = None, accessor = None,
               canRematerialize = True\<rparr>,
      b_lvalue = False\<rparr>"

definition expr_base :: ExprBase where
  "expr_base =
     \<lparr>b_val = \<lparr>ident = iEXPRESSION, constval = 0, sym = None, accessor = None,
               canRematerialize = False\<rparr>,
      b_lvalue = False\<rparr>"

definition sym_a :: symbol where
  "sym_a = \<lparr>sym_name = ''a'', sym_ident = iVARIABLE, sym_addr = 0, sym_tag = 0,
            sym_usage = {}, dim_array_level = 0, dim_array_length = 0\<rparr>"

definition val_a :: value_desc where
  "val_a = \<lparr>ident = iVARIABLE, constval = 0, sym = Some sym_a, accessor = None,
            canRematerialize = True\<rparr>"

definition two_times_three :: Expr where
  "two_times_three =
     BinaryExpr expr_base (Ch CHR ''*'') (NumberExpr (const_base 2)) (NumberExpr (const_base 3))
       (Some ''mul'') no_userop no_userop 0"

definition one_plus_two_times_three :: Expr where
  "one_plus_two_times_three =
     BinaryExpr expr_base (Ch CHR ''+'') (NumberExpr (const_base 1)) two_times_three
       (Some ''add'') no_userop no_userop 0"

definition a_assign :: Expr where
  "a_assign =
     BinaryExpr expr_base (Ch CHR ''='')
       (SymbolExpr \<lparr>b_val = val_a, b_lvalue = True\<rparr> sym_a) one_plus_two_times_three
       None no_userop no_userop 0"

text \<open>
  Modelled from the spec: the heap list of section 4.2.3, read off the calls the emitter
  received. \<^verbatim>\<open>pushheaplist\<close> opens a frame, \<^verbatim>\<open>pop_static_heaplist\<close> and \<^verbatim>\<open>popheaplist\<close>
  close the innermost one, \<^verbatim>\<open>markheap(MEMUSE_STATIC, n)\<close> adds \<open>n\<close> to the innermost
  frame; the total of \<^verbatim>\<open>pop_static_heaplist\<close> is that of the innermost frame.
\<close>

fun heap_frames :: "instr list \<Rightarrow> int list \<Rightarrow> int list" where
  "heap_frames [] st = st"
| "heap_frames (Pushheaplist # is) st = heap_frames is (0 # st)"
| "heap_frames (Pop_static_heaplist # is) st = heap_frames is (tl st)"
| "heap_frames (Popheaplist scrap # is) st = heap_frames is (tl st)"
| "heap_frames (Markheap MEMUSE_STATIC n # is) st =
     heap_frames is (case st of [] \<Rightarrow> [] | t # r \<Rightarrow> (t + n) # r)"
| "heap_frames (i # is) st = heap_frames is st"

definition frame_total :: "instr list \<Rightarrow> int" where
  "frame_total tr = (case heap_frames tr [] of [] \<Rightarrow> 0 | t # r \<Rightarrow> t)"

definition example_env :: env where
  "example_env =
     \<lparr>IsChainedOp = (\<lambda>t. t = Ch CHR ''<'' \<or> t = Ch CHR ''>''),
      IsAssignOp = (\<lambda>t. t = Ch CHR ''=''),
      commutative = (\<lambda>oper. oper = Some ''add'' \<or> oper = Some ''mul''),
      array_totalsize = (\<lambda>sm. 3),
      cc_ok = True,
      pc_tag_string = 1,
      sCHARBITS = 8,
      sizeof_cell = 4,
      static_total = frame_total\<rparr>"

lemma EmitInner_table_eq:
  "EmitInner E (BinaryExpr rb rtok rl rr oper uop aop acl) l r s =
     EmitInner_case_table E oper uop l r s"
  by (cases oper; cases "Emit E r s"; cases "Emit E r (emit (Pushreg sPRI) s)")
     (simp_all add: EmitInner_case_table_def Let_def emit_emits emit_if_emits emits_emits
        emits_Nil oper_code_def del: Emit.simps)

lemma a_assign_trace:
  assumes "IsAssignOp E (Ch CHR ''='')" "\<not> IsAssignOp E (Ch CHR ''+'')"
    "\<not> IsAssignOp E (Ch CHR ''*'')" "\<not> IsChainedOp E (Ch CHR ''='')"
    "\<not> IsChainedOp E (Ch CHR ''+'')" "\<not> IsChainedOp E (Ch CHR ''*'')"
  shows "Emit E a_assign s =
     Some (emits [Ldconst 3 sPRI, Ldconst 2 sALT, Oper ''mul'', Ldconst 1 sALT, Oper ''add'',
                  Store val_a] s)"
  using assms
  by (simp add: a_assign_def one_plus_two_times_three_def two_times_three_def expr_base_def sym_a_def
       const_base_def no_userop_def val_a_def val_def lvalue_def BinaryExpr_assign_lhs_def
       emit_def emit_if_def emits_def assert_def Emit.simps)

text \<open>
  Claim C1. For every non-chained \<^verbatim>\<open>BinaryExpr\<close>, \<^verbatim>\<open>EmitInner\<close> emits what the case table
  says, for any root node, operands and emitter state; and for the tree of
  \<^verbatim>\<open>int a = 1 + 2 * 3;\<close>, under any parameters for which \<^verbatim>\<open>=\<close> is the only assignment
  token of the three and none is a chained comparison, the emitted code is exactly
  \<^verbatim>\<open>ldconst 3 PRI; ldconst 2 ALT; mul; ldconst 1 ALT; add; store a\<close>.
\<close>

theorem EmitInner_follows_case_table:
  "EmitInner E (BinaryExpr rb rtok rl rr oper uop aop acl) l r s =
     EmitInner_case_table E oper uop l r s \<and>
   (IsAssignOp E (Ch CHR ''='') \<and> \<not> IsAssignOp E (Ch CHR ''+'') \<and>
    \<not> IsAssignOp E (Ch CHR ''*'') \<and> \<not> IsChainedOp E (Ch CHR ''='') \<and>
    \<not> IsChainedOp E (Ch CHR ''+'') \<and> \<not> IsChainedOp E (Ch CHR ''*'') \<longrightarrow>
    Emit E a_assign s =
      Some (emits [Ldconst 3 sPRI, Ldconst 2 sALT, Oper ''mul'', Ldconst 1 sALT, Oper ''add'',
                   Store val_a] s))"
  using EmitInner_table_eq a_assign_trace by blast

theorem EmitInner_follows_case_table_witness:
  "EmitInner example_env two_times_three (NumberExpr (const_base 2)) (NumberExpr (const_base 3))
     \<lparr>trace = [], labnum = 0\<rparr> =
     Some \<lparr>trace = [Ldconst 3 sPRI, Ldconst 2 sALT, Oper ''mul''], labnum = 0\<rparr> \<and>
   Emit example_env a_assign \<lparr>trace = [], labnum = 0\<rparr> =
     Some \<lparr>trace = [Ldconst 3 sPRI, Ldconst 2 sALT, Oper ''mul'', Ldconst 1 sALT, Oper ''add'',
                    Store val_a], labnum = 0\<rparr>"
proof -
  have E: "IsAssignOp example_env (Ch CHR ''='') \<and> \<not> IsAssignOp example_env (Ch CHR ''+'') \<and>
    \<not> IsAssignOp example_env (Ch CHR ''*'') \<and> \<not> IsChainedOp example_env (Ch CHR ''='') \<and>
    \<not> IsChainedOp example_env (Ch CHR ''+'') \<and> \<not> IsChainedOp example_env (Ch CHR ''*'')"
    by (simp add: example_env_def)
  have T: "EmitInner_case_table example_env (Some ''mul'') no_userop (NumberExpr (const_base 2))
      (NumberExpr (const_base 3)) \<lparr>trace = [], labnum = 0\<rparr> =
     Some \<lparr>trace = [Ldconst 3 sPRI, Ldconst 2 sALT, Oper ''mul''], labnum = 0\<rparr>"
    by (simp add: EmitInner_case_table_def const_base_def val_def oper_code_def no_userop_def
          emits_def)
  from EmitInner_follows_case_table [of example_env expr_base "Ch CHR ''*''"
      "NumberExpr (const_base 2)" "NumberExpr (const_base 3)" "Some ''mul''" no_userop no_userop 0
      "NumberExpr (const_base 2)" "NumberExpr (const_base 3)" "\<lparr>trace = [], labnum = 0\<rparr>"]
  show ?thesis using E T by (simp add: two_times_three_def emits_def)
qed

subsection \<open>Heap scopes\<close>

text \<open>
  \<open>heap_depth tr d\<close> runs the heap-list calls of a trace from \<open>d\<close> open frames: a
  \<^verbatim>\<open>pushheaplist\<close> opens one, \<^verbatim>\<open>pop_static_heaplist\<close> and \<^verbatim>\<open>popheaplist\<close> close one, and
  closing with no frame open is \<open>None\<close>. So \<open>heap_depth tr 0 = Some 0\<close> says that the
  pushes and pops of \<open>tr\<close> are matched like brackets. \<open>opens s0 k s\<close>: the state \<open>s\<close>
  extends \<open>s0\<close> by a trace that leaves \<open>k\<close> more frames open.
\<close>

fun heap_depth :: "instr list \<Rightarrow> nat \<Rightarrow> nat option" where
  "heap_depth [] d = Some d"
| "heap_depth (Pushheaplist # is) d = heap_depth is (Suc d)"
| "heap_depth (Pop_static_heaplist # is) d = (case d of 0 \<Rightarrow> None | Suc d' \<Rightarrow> heap_depth is d')"
| "heap_depth (Popheaplist scrap # is) d = (case d of 0 \<Rightarrow> None | Suc d' \<Rightarrow> heap_depth is d')"
| "heap_depth (i # is) d = heap_depth is d"

lemma heap_depth_append:
  "heap_depth (a @ b) d = (case heap_depth a d of None \<Rightarrow> None | Some d' \<Rightarrow> heap_depth b d')"
  by (induction a d rule: heap_depth.induct) (auto split: nat.splits)

definition opens :: "emitter \<Rightarrow> nat \<Rightarrow> emitter \<Rightarrow> bool" where
  "opens s0 k s \<longleftrightarrow> (\<exists>tr. trace s = trace s0 @ tr \<and> (\<forall>d. heap_depth tr d = Some (d + k)))"

definition neutral :: "instr \<Rightarrow> bool" where
  "neutral i \<longleftrightarrow> i \<noteq> Pushheaplist \<and> i \<noteq> Pop_static_heaplist \<and> (\<forall>b. i \<noteq> Popheaplist b)"

lemma heap_depth_neutral: "neutral i \<Longrightarrow> heap_depth (i # is) d = heap_depth is d"
  by (cases i) (auto simp: neutral_def)

lemma opens_refl: "opens s 0 s"
  by (simp add: opens_def)

lemma opens_emit: "neutral i \<Longrightarrow> opens s0 k s \<Longrightarrow> opens s0 k (emit i s)"
  unfolding opens_def emit_def
  by (auto simp: heap_depth_append heap_depth_neutral)

lemma opens_emit_if: "neutral i \<Longrightarrow> opens s0 k s \<Longrightarrow> opens s0 k (emit_if c i s)"
  by (simp add: emit_if_def opens_emit)

lemma opens_push: "opens s0 k s \<Longrightarrow> opens s0 (Suc k) (emit Pushheaplist s)"
  unfolding opens_def emit_def
  by (auto simp: heap_depth_append)

lemma opens_pop_static: "opens s0 (Suc k) s \<Longrightarrow> opens s0 k (emit Pop_static_heaplist s)"
  unfolding opens_def emit_def
  by (auto simp: heap_depth_append)

lemma opens_pop: "opens s0 (Suc k) s \<Longrightarrow> opens s0 k (emit (Popheaplist b) s)"
  unfolding opens_def emit_def
  by (auto simp: heap_depth_append)

lemma opens_labnum: "opens s0 k (s\<lparr>labnum := n\<rparr>) = opens s0 k s"
  by (simp add: opens_def)

lemma neutral_simps:
  "neutral (Ldconst c r)" "neutral (Rvalue v)" "neutral (Store v)" "neutral (Address sm r)"
  "neutral (Pushreg r)" "neutral (Popreg r)" "neutral Move_alt" "neutral Moveto1" "neutral Swap1"
  "neutral Invert" "neutral Lneg" "neutral Neg" "neutral (Inc v)" "neutral (Dec v)"
  "neutral Inc_pri" "neutral Dec_pri" "neutral Ob_add" "neutral (Oper op)"
  "neutral (Emit_userop uop vo)" "neutral Relop_prefix" "neutral Relop_suffix"
  "neutral (Setlabel n)" "neutral (Jumplabel n)" "neutral (Jmp_eq0 n)" "neutral (Jmp_ne0 n)"
  "neutral Cell2addr" "neutral Char2addr" "neutral (Ffbounds bo)" "neutral (Memcopy c)"
  "neutral (Setheap_save c)" "neutral Setheap_pri" "neutral (Setheap c)" "neutral (Modheap c)"
  "neutral (Markheap m c)" "neutral (Ffcall sm n)" "neutral (Load_glbfn sm)"
  "neutral (Markusage sm u)" "neutral (Invoke_getter a)" "neutral (Invoke_setter a b)"
  "neutral (Setdefarray dd c1 c2 c3 b)" "neutral (Markexpr mk)"
  by (simp_all add: neutral_def)

lemmas opens_rules = opens_emit opens_emit_if opens_push opens_pop_static opens_pop opens_labnum
  neutral_simps

lemma opens_assign_lhs:
  "BinaryExpr_assign_lhs v lv oper s = Some (saved, s') \<Longrightarrow> opens s0 k s \<Longrightarrow> opens s0 k s'"
  by (auto simp: BinaryExpr_assign_lhs_def opens_rules split: if_splits)

lemma opens_pass_arg:
  "CallExpr_pass_arg v lv arg s = Some s' \<Longrightarrow> opens s0 k s \<Longrightarrow> opens s0 k s'"
  by (auto simp: CallExpr_pass_arg_def opens_rules bind_eq_Some_conv
           split: if_splits option.splits)

lemma opens_assert: "assert c s = Some s' \<Longrightarrow> opens s0 k s \<Longrightarrow> opens s0 k s'"
  by (auto simp: assert_def split: if_splits)

lemma assert_Some: "(assert c s = Some s') = (c \<and> s' = s)"
  by (auto simp: assert_def)

lemma gen_opens:
  "(\<forall>s' s0 k. Emit E e s = Some s' \<longrightarrow> opens s0 k s \<longrightarrow> opens s0 k s')"
  "(\<forall>s' s0 k. EmitTest E e1 j t f s1 = Some s' \<longrightarrow> opens s0 k s1 \<longrightarrow> opens s0 k s')"
  "(\<forall>s' s0 k. DoEmit E e2 s2 = Some s' \<longrightarrow> opens s0 k s2 \<longrightarrow> opens s0 k s')"
  "(\<forall>s' s0 k. EmitInner E root l r s3 = Some s' \<longrightarrow> opens s0 k s3 \<longrightarrow> opens s0 k s')"
  "(\<forall>s' s0 k. EmitChainedCompare E e4 s4 = Some s' \<longrightarrow> opens s0 k s4 \<longrightarrow> opens s0 k s')"
  "(\<forall>s' s0 k. ChainLoop E exprs l5 c5 s5 = Some s' \<longrightarrow> opens s0 k s5 \<longrightarrow> opens s0 k s')"
  "(\<forall>s' s0 k. LogicalLoop E tok j6 t6 f6 es6 s6 = Some s' \<longrightarrow> opens s0 k s6 \<longrightarrow> opens s0 k s')"
  "(\<forall>s' s0 k. CommaLoop E es7 s7 = Some s' \<longrightarrow> opens s0 k s7 \<longrightarrow> opens s0 k s')"
  "(\<forall>s' s0 k. CallArgs E argv n s8 = Some s' \<longrightarrow> opens s0 k s8 \<longrightarrow> opens s0 k s')"
  apply (induction E e s and E e1 j t f s1 and E e2 s2 and E root l r s3 and E e4 s4
         and E exprs l5 c5 s5 and E tok j6 t6 f6 es6 s6 and E es7 s7 and E argv n s8
       rule: Emit_EmitTest_DoEmit_EmitInner_EmitChainedCompare_ChainLoop_LogicalLoop_CommaLoop_CallArgs.induct)
  subgoal by (subst Emit.simps) (auto simp: opens_rules)
  subgoal by ((atomize (full))?, auto simp: Let_def bind_eq_Some_conv opens_rules split: if_splits)
  subgoal by ((atomize (full))?, auto simp: Let_def bind_eq_Some_conv opens_rules split: if_splits)
  subgoal by ((atomize (full))?, auto simp: Let_def bind_eq_Some_conv opens_rules split: if_splits)
  subgoal by ((atomize (full))?, auto simp: Let_def bind_eq_Some_conv opens_rules split: if_splits)
  subgoal by ((atomize (full))?, auto simp: Let_def bind_eq_Some_conv opens_rules split: if_splits)
  subgoal by ((atomize (full))?, auto simp: Let_def bind_eq_Some_conv opens_rules split: if_splits)
  subgoal by ((atomize (full))?, auto simp: Let_def bind_eq_Some_conv opens_rules split: if_splits)
  subgoal by ((atomize (full))?, auto simp: Let_def bind_eq_Some_conv opens_rules split: if_splits)
  subgoal by ((atomize (full))?, auto simp: Let_def bind_eq_Some_conv opens_rules split: if_splits)
  subgoal by ((atomize (full))?, auto simp: Let_def bind_eq_Some_conv opens_rules split: if_splits)
  subgoal by ((atomize (full))?, auto simp: Let_def bind_eq_Some_conv opens_rules split: if_splits)
  subgoal by ((atomize (full))?, auto simp: Let_def bind_eq_Some_conv opens_rules split: if_splits)
  subgoal by ((atomize (full))?, auto simp: Let_def bind_eq_Some_conv opens_rules split: if_splits)
  subgoal by ((atomize (full))?, auto simp: Let_def bind_eq_Some_conv opens_rules split: if_splits)
  subgoal by ((atomize (full))?, auto simp: Let_def bind_eq_Some_conv opens_rules split: if_splits)
  subgoal by ((atomize (full))?, auto simp: Let_def bind_eq_Some_conv opens_rules split: if_splits)
  subgoal by ((atomize (full))?, auto simp: Let_def bind_eq_Some_conv opens_rules split: if_splits)
  subgoal by ((atomize (full))?, auto simp: Let_def bind_eq_Some_conv opens_rules split: if_splits)
  subgoal by ((atomize (full))?, auto simp: Let_def bind_eq_Some_conv opens_rules split: if_splits)
  subgoal by ((atomize (full))?, auto simp: Let_def bind_eq_Some_conv opens_rules split: if_splits)
  subgoal by ((atomize (full))?, auto simp: Let_def bind_eq_Some_conv opens_rules split: if_splits)
  subgoal by ((atomize (full))?, auto simp: Let_def bind_eq_Some_conv opens_rules split: if_splits)
  subgoal by ((atomize (full))?, auto simp: Let_def bind_eq_Some_conv opens_rules split: if_splits)
  subgoal by ((atomize (full))?, auto simp: Let_def bind_eq_Some_conv opens_rules split: if_splits)
  subgoal by ((atomize (full))?, auto simp: Let_def bind_eq_Some_conv opens_rules split: if_splits)
  subgoal by ((atomize (full))?, auto simp: Let_def bind_eq_Some_conv opens_rules split: if_splits)
  subgoal by ((atomize (full))?, auto simp: Let_def bind_eq_Some_conv opens_rules assert_Some getlabel_def pop_static_heaplist_def split: if_splits option.splits prod.splits dest: opens_assign_lhs opens_pass_arg)
  subgoal by ((atomize (full))?, auto simp: Let_def bind_eq_Some_conv opens_rules assert_Some getlabel_def pop_static_heaplist_def split: if_splits option.splits prod.splits dest: opens_assign_lhs opens_pass_arg)
  subgoal by ((atomize (full))?, auto simp: Let_def bind_eq_Some_conv opens_rules assert_Some getlabel_def pop_static_heaplist_def split: if_splits option.splits prod.splits dest: opens_assign_lhs opens_pass_arg)
  subgoal premises IH for E b tok left0 right0 oper userop assignop acl s
  proof (intro allI impI)
    fix s' s0 k
    assume run: "DoEmit E (BinaryExpr b tok left0 right0 oper userop assignop acl) s = Some s'"
      and op: "opens s0 k s"
    show "opens s0 k s'"
    proof (cases "IsChainedOp E tok")
      case True
      then show ?thesis using run op IH(1) by simp
    next
      case nch: False
      from run nch obtain a where
        a: "(if IsAssignOp E tok \<or> ident (val left0) \<noteq> iCONSTEXPR then Emit E left0 s
             else Some s) = Some a"
        by (auto simp: Let_def bind_eq_Some_conv)
      have oa: "opens s0 k a"
        using a op IH(2) [OF nch refl] by (auto split: if_splits)
      from run nch a obtain saved y where
        y: "(if IsAssignOp E tok
             then BinaryExpr_assign_lhs (val left0) (lvalue left0) oper a
             else Some (False, a)) = Some (saved, y)"
        by (auto simp: Let_def bind_eq_Some_conv)
      have oy: "opens s0 k y"
        using y oa by (auto split: if_splits dest: opens_assign_lhs)
      show ?thesis
      proof (cases "IsAssignOp E tok \<and> acl \<noteq> 0")
        case cp: True
        with run nch a y obtain r where
          A1: "assert (oper = None) y = Some y" and
          A2: "assert (uo_sym assignop = None) y = Some y" and
          r: "Emit E right0 (emit (Pushreg sPRI) y) = Some r" and
          s': "s' = emit (Memcopy (acl * sizeof_cell E)) (emit (Popreg sALT) r)"
          by (auto simp: Let_def bind_eq_Some_conv assert_Some)
        have "opens s0 k r"
          using IH(3) [OF nch refl a y refl cp A1 A2 refl] r oy
          by (simp add: opens_rules)
        then show ?thesis by (simp add: s' opens_rules)
      next
        case ncp: False
        with run nch a y obtain r where
          A1: "assert (acl = 0) y = Some y" and
          A2: "assert (ident (val left0) \<noteq> iARRAY \<and> ident (val left0) \<noteq> iREFARRAY) y = Some y" and
          r: "EmitInner E (BinaryExpr b tok left0 right0 oper userop assignop acl) left0 right0 y = Some r" and
          s': "s' = (if IsAssignOp E tok
                     then emit (Store (val left0))
                            (emit_if (uo_sym assignop \<noteq> None) (Emit_userop assignop None)
                              (emit_if saved (Popreg sALT) r))
                     else r)"
          by (auto simp: Let_def bind_eq_Some_conv assert_Some split: if_splits)
        have "opens s0 k r"
          using IH(4) [OF nch refl a y refl ncp A1 A2] r oy by blast
        then show ?thesis by (simp add: s' opens_rules)
      qed
    qed
  qed
  subgoal by ((atomize (full))?, auto simp: Let_def bind_eq_Some_conv opens_rules assert_Some getlabel_def pop_static_heaplist_def split: if_splits option.splits prod.splits dest: opens_assign_lhs opens_pass_arg)
  subgoal by ((atomize (full))?, auto simp: Let_def bind_eq_Some_conv opens_rules assert_Some getlabel_def pop_static_heaplist_def split: if_splits option.splits prod.splits dest: opens_assign_lhs opens_pass_arg)
  subgoal by ((atomize (full))?, auto simp: Let_def bind_eq_Some_conv opens_rules split: if_splits)
  subgoal by ((atomize (full))?, auto simp: Let_def bind_eq_Some_conv opens_rules assert_Some getlabel_def pop_static_heaplist_def split: if_splits option.splits prod.splits dest: opens_assign_lhs opens_pass_arg)
  subgoal by ((atomize (full))?, auto simp: Let_def bind_eq_Some_conv opens_rules split: if_splits)
  subgoal by ((atomize (full))?, auto simp: Let_def bind_eq_Some_conv opens_rules split: if_splits)
  subgoal by ((atomize (full))?, auto simp: Let_def bind_eq_Some_conv opens_rules assert_Some getlabel_def pop_static_heaplist_def split: if_splits option.splits prod.splits dest: opens_assign_lhs opens_pass_arg)
  subgoal by ((atomize (full))?, auto simp: Let_def bind_eq_Some_conv opens_rules assert_Some getlabel_def pop_static_heaplist_def split: if_splits option.splits prod.splits dest: opens_assign_lhs opens_pass_arg)
  subgoal by ((atomize (full))?, auto simp: Let_def bind_eq_Some_conv opens_rules split: if_splits)
  subgoal by ((atomize (full))?, auto simp: Let_def bind_eq_Some_conv opens_rules split: if_splits)
  subgoal by ((atomize (full))?, auto simp: Let_def bind_eq_Some_conv opens_rules split: if_splits)
  subgoal by ((atomize (full))?, auto simp: Let_def bind_eq_Some_conv opens_rules assert_Some getlabel_def pop_static_heaplist_def split: if_splits option.splits prod.splits dest: opens_assign_lhs opens_pass_arg)
  subgoal for E b base0 expr s
    apply (cases "sym (val base0)"; cases "ident (val expr) = iCONSTEXPR")
    apply ((atomize (full))?, auto simp: Let_def bind_eq_Some_conv opens_rules assert_Some getlabel_def pop_static_heaplist_def split: if_splits option.splits prod.splits dest: opens_assign_lhs opens_pass_arg)+
    done
  subgoal for E b tok base0 field s
    apply (cases field)
    apply ((atomize (full))?, auto simp: Let_def bind_eq_Some_conv opens_rules assert_Some getlabel_def pop_static_heaplist_def split: if_splits option.splits prod.splits dest: opens_assign_lhs opens_pass_arg)+
    done
  subgoal by ((atomize (full))?, auto simp: Let_def bind_eq_Some_conv opens_rules split: if_splits)
  subgoal for E b sm argv s
    apply (cases "sym (b_val b)")
    apply ((atomize (full))?, auto simp: Let_def bind_eq_Some_conv opens_rules assert_Some getlabel_def pop_static_heaplist_def split: if_splits option.splits prod.splits dest: opens_assign_lhs opens_pass_arg)+
    done
  subgoal by ((atomize (full))?, auto simp: Let_def bind_eq_Some_conv opens_rules assert_Some getlabel_def pop_static_heaplist_def split: if_splits option.splits prod.splits dest: opens_assign_lhs opens_pass_arg)
  subgoal by ((atomize (full))?, auto simp: Let_def bind_eq_Some_conv opens_rules assert_Some getlabel_def pop_static_heaplist_def split: if_splits option.splits prod.splits dest: opens_assign_lhs opens_pass_arg)
  subgoal by ((atomize (full))?, auto simp: Let_def bind_eq_Some_conv opens_rules split: if_splits)
  subgoal by ((atomize (full))?, auto simp: Let_def bind_eq_Some_conv opens_rules split: if_splits)
  subgoal by ((atomize (full))?, auto simp: Let_def bind_eq_Some_conv opens_rules split: if_splits)
  subgoal premises IH for E argv i s
  proof (intro allI impI)
    fix s' s0 k
    assume run: "CallArgs E argv (Suc i) s = Some s'" and op: "opens s0 k s"
    from run have lt: "i < length argv" by (auto split: if_splits)
    from run lt obtain a aa where a: "Emit E (fst (argv ! i)) s = Some a"
      and aa: "(if AsDefaultArgExpr (fst (argv ! i)) then Some (emit (Pushreg sPRI) a)
                else
                 (let v = val (fst (argv ! i)); lval = lvalue (fst (argv ! i)) in do {
                    s \<leftarrow> CallExpr_pass_arg v lval (snd (argv ! i)) a;
                    let s = emit (Pushreg sPRI) s;
                    Some (emit (Markexpr sPARM) s)
                  })) = Some aa"
      and r: "CallArgs E argv i aa = Some s'"
      by (auto simp: Let_def bind_eq_Some_conv)
    have nn: "\<not> \<not> i < length argv" using lt by simp
    have oa: "opens s0 k a" using IH(1) [OF nn refl refl] a op by blast
    have oaa: "opens s0 k aa" using aa oa
      by (auto simp: Let_def bind_eq_Some_conv opens_rules split: if_splits dest: opens_pass_arg)
    show "opens s0 k s'" using IH(2) [OF nn refl refl a aa] r oaa by blast
  qed
  subgoal by (subst EmitChainedCompare.simps, (atomize (full))?, auto simp: Let_def bind_eq_Some_conv opens_rules split: if_splits option.splits)
  subgoal by (subst ChainLoop.simps, (atomize (full))?, auto simp: Let_def bind_eq_Some_conv opens_rules split: if_splits option.splits)
  subgoal by ((atomize (full))?, auto simp: Let_def bind_eq_Some_conv opens_rules assert_Some getlabel_def pop_static_heaplist_def split: if_splits option.splits prod.splits dest: opens_assign_lhs opens_pass_arg)
  subgoal by ((atomize (full))?, auto simp: Let_def bind_eq_Some_conv opens_rules split: if_splits)
  subgoal by ((atomize (full))?, auto simp: Let_def bind_eq_Some_conv opens_rules split: if_splits)
  subgoal by ((atomize (full))?, auto simp: Let_def bind_eq_Some_conv opens_rules split: if_splits)
  subgoal by ((atomize (full))?, auto simp: Let_def bind_eq_Some_conv opens_rules split: if_splits)
  subgoal by ((atomize (full))?, auto simp: Let_def bind_eq_Some_conv opens_rules split: if_splits)
  subgoal by ((atomize (full))?, auto simp: Let_def bind_eq_Some_conv opens_rules split: if_splits)
  subgoal by ((atomize (full))?, auto simp: Let_def bind_eq_Some_conv opens_rules split: if_splits)
  subgoal by ((atomize (full))?, auto simp: Let_def bind_eq_Some_conv opens_rules split: if_splits)
  subgoal by ((atomize (full))?, auto simp: Let_def bind_eq_Some_conv opens_rules split: if_splits)
  subgoal by ((atomize (full))?, auto simp: Let_def bind_eq_Some_conv opens_rules split: if_splits)
  subgoal by ((atomize (full))?, auto simp: Let_def bind_eq_Some_conv opens_rules split: if_splits)
  subgoal by ((atomize (full))?, auto simp: Let_def bind_eq_Some_conv opens_rules split: if_splits)
  subgoal by ((atomize (full))?, auto simp: Let_def bind_eq_Some_conv opens_rules split: if_splits)
  subgoal by ((atomize (full))?, auto simp: Let_def bind_eq_Some_conv opens_rules split: if_splits)
  subgoal by ((atomize (full))?, auto simp: Let_def bind_eq_Some_conv opens_rules split: if_splits)
  subgoal by ((atomize (full))?, auto simp: Let_def bind_eq_Some_conv opens_rules split: if_splits)
  subgoal by ((atomize (full))?, auto simp: Let_def bind_eq_Some_conv opens_rules split: if_splits)
  subgoal by ((atomize (full))?, auto simp: Let_def bind_eq_Some_conv opens_rules split: if_splits)
  subgoal by ((atomize (full))?, auto simp: Let_def bind_eq_Some_conv opens_rules split: if_splits)
  subgoal by ((atomize (full))?, auto simp: Let_def bind_eq_Some_conv opens_rules split: if_splits)
  subgoal by ((atomize (full))?, auto simp: Let_def bind_eq_Some_conv opens_rules split: if_splits)
  subgoal by ((atomize (full))?, auto simp: Let_def bind_eq_Some_conv opens_rules split: if_splits)
  done

lemma Emit_opens:
  "Emit E e s = Some s' \<Longrightarrow> opens s0 k s \<Longrightarrow> opens s0 k s'"
  using gen_opens(1) by blast

lemma DoEmit_opens:
  "DoEmit E e s = Some s' \<Longrightarrow> opens s0 k s \<Longrightarrow> opens s0 k s'"
  using gen_opens(3) by blast

lemma DoEmit_balanced:
  assumes "DoEmit E e s = Some s'"
  shows "\<exists>tr. trace s' = trace s @ tr \<and> heap_depth tr 0 = Some 0"
proof -
  have "opens s 0 s'" using DoEmit_opens [OF assms opens_refl] .
  then show ?thesis by (auto simp: opens_def)
qed

definition var_base :: "symbol \<Rightarrow> ExprBase" where
  "var_base sm =
     \<lparr>b_val = \<lparr>ident = iVARIABLE, constval = 0, sym = Some sm, accessor = None,
               canRematerialize = True\<rparr>,
      b_lvalue = True\<rparr>"

definition rvalue_of :: "symbol \<Rightarrow> Expr" where
  "rvalue_of sm = RvalueExpr expr_base (SymbolExpr (var_base sm) sm)"

definition sym_named :: "string \<Rightarrow> ident \<Rightarrow> symbol" where
  "sym_named n i = \<lparr>sym_name = n, sym_ident = i, sym_addr = 0, sym_tag = 0,
            sym_usage = {}, dim_array_level = 0, dim_array_length = 0\<rparr>"

definition array_call :: "string \<Rightarrow> Expr" where
  "array_call n =
     CallExpr \<lparr>b_val = \<lparr>ident = iREFARRAY, constval = 0, sym = Some (sym_named n iREFARRAY),
                       accessor = None, canRematerialize = False\<rparr>,
               b_lvalue = False\<rparr>
       (sym_named n iFUNCTN) []"

definition ternary_example :: Expr where
  "ternary_example =
     TernaryExpr \<lparr>b_val = \<lparr>ident = iREFARRAY, constval = 0, sym = None,
                          accessor = None, canRematerialize = False\<rparr>,
                  b_lvalue = False\<rparr>
       (rvalue_of (sym_named ''x'' iVARIABLE)) (array_call ''f'') (array_call ''g'')"

definition ternary_example_code :: "instr list" where
  "ternary_example_code =
     [Rvalue (b_val (var_base (sym_named ''x'' iVARIABLE))),
      Pushheaplist, Jmp_eq0 0,
      Modheap 12, Pushreg sALT, Markheap MEMUSE_STATIC 3, Pushheaplist,
      Ffcall (sym_named ''f'' iFUNCTN) 0, Popreg sPRI, Popheaplist True,
      Pop_static_heaplist, Setheap_save 12,
      Pushheaplist, Jumplabel 1, Setlabel 0,
      Modheap 12, Pushreg sALT, Markheap MEMUSE_STATIC 3, Pushheaplist,
      Ffcall (sym_named ''g'' iFUNCTN) 0, Popreg sPRI, Popheaplist True,
      Pop_static_heaplist, Setheap_save 12,
      Setlabel 1, Markheap MEMUSE_DYNAMIC 0]"

lemma ternary_example_run:
  "DoEmit example_env ternary_example \<lparr>trace = [], labnum = 0\<rparr> =
     Some \<lparr>trace = ternary_example_code, labnum = 2\<rparr>"
  by (simp add: ternary_example_def ternary_example_code_def example_env_def
        rvalue_of_def array_call_def var_base_def sym_named_def expr_base_def val_def
        Emit.simps emit_def emit_if_def assert_def getlabel_def pop_static_heaplist_def
        frame_total_def)

subsection \<open>The truth table of \<^verbatim>\<open>LogicalExpr::EmitTest\<close>\<close>

text \<open>
  \<open>EmitTest_each E j target other es\<close> tests every expression of \<open>es\<close> in order,
  jumping to \<open>target\<close> when its value is \<open>j\<close>; \<open>other\<close> is the label handed down as
  the fall-through.
\<close>

fun EmitTest_each ::
  "env \<Rightarrow> bool \<Rightarrow> nat \<Rightarrow> nat \<Rightarrow> Expr list \<Rightarrow> emitter \<Rightarrow> emitter option" where
  "EmitTest_each E j target other [] s = Some s"
| "EmitTest_each E j target other (e # es) s =
     do { s \<leftarrow> EmitTest E e j target other s; EmitTest_each E j target other es s }"

text \<open>
  The truth table as the specification words it, for the flattened operands \<open>es\<close>:
  the four cases of the operator and of \<open>jump_on_true\<close>.
\<close>

definition Logical_truth_table ::
  "env \<Rightarrow> token \<Rightarrow> bool \<Rightarrow> nat \<Rightarrow> nat \<Rightarrow> Expr list \<Rightarrow> emitter \<Rightarrow> emitter option" where
  "Logical_truth_table E tok jump_on_true TAKEN FALLTHROUGH es s =
     (if tok = tlOR then
        (if jump_on_true then EmitTest_each E True TAKEN FALLTHROUGH es s
         else do {
           s \<leftarrow> EmitTest_each E True FALLTHROUGH TAKEN (butlast es) s;
           EmitTest E (last es) False TAKEN FALLTHROUGH s
         })
      else
        (if jump_on_true then do {
           s \<leftarrow> EmitTest_each E False FALLTHROUGH TAKEN (butlast es) s;
           EmitTest E (last es) True TAKEN FALLTHROUGH s
         }
         else EmitTest_each E False TAKEN FALLTHROUGH es s))"

lemma EmitTest_each_snoc:
  "EmitTest_each E j t f (es @ [e]) s =
     do { s \<leftarrow> EmitTest_each E j t f es s; EmitTest E e j t f s }"
  by (induction es arbitrary: s) (auto split: bind_split)

lemma EmitTest_each_butlast:
  "es \<noteq> [] \<Longrightarrow>
   EmitTest_each E j t f es s =
     do { s \<leftarrow> EmitTest_each E j t f (butlast es) s; EmitTest E (last es) j t f s }"
  using EmitTest_each_snoc [of E j t f "butlast es" "last es" s] by simp

lemma LogicalLoop_each:
  "tok = tlOR \<or> tok = tlAND \<Longrightarrow>
   LogicalLoop E tok jump_on_true taken fallthrough es s =
     (if tok = tlOR then
        (if jump_on_true then EmitTest_each E True taken fallthrough es s
         else EmitTest_each E True fallthrough taken es s)
      else
        (if jump_on_true then EmitTest_each E False fallthrough taken es s
         else EmitTest_each E False taken fallthrough es s))"
  by (induction es arbitrary: s) (auto split: bind_split)

lemma Logical_table_aux:
  assumes "es \<noteq> []" "tok = tlOR \<or> tok = tlAND"
  shows "do { s \<leftarrow> LogicalLoop E tok j T F (butlast es) s; EmitTest E (last es) j T F s } =
     Logical_truth_table E tok j T F es s"
  using assms EmitTest_each_butlast [of es E True T F s]
    EmitTest_each_butlast [of es E False T F s]
  by (auto simp: Logical_truth_table_def LogicalLoop_each)

definition logical_example :: Expr where
  "logical_example =
     LogicalExpr expr_base tlOR
       (LogicalExpr expr_base tlAND (rvalue_of (sym_named ''a'' iVARIABLE))
          (rvalue_of (sym_named ''b'' iVARIABLE)))
       (rvalue_of (sym_named ''c'' iVARIABLE))"

text \<open>
  Claim C2. For every \<^verbatim>\<open>LogicalExpr\<close> with token \<^verbatim>\<open>||\<close> or \<^verbatim>\<open>&&\<close>, \<^verbatim>\<open>EmitTest\<close> emits what
  the truth table says for the list its operands flatten into.
\<close>

theorem LogicalExpr_EmitTest_truth_table:
  assumes "tok = tlOR \<or> tok = tlAND"
  shows "EmitTest E (LogicalExpr b tok l r) jump_on_true TAKEN FALLTHROUGH s =
     Logical_truth_table E tok jump_on_true TAKEN FALLTHROUGH
       (FlattenLogical tok (LogicalExpr b tok l r)) s"
proof -
  let ?es = "FlattenLogical tok (LogicalExpr b tok l r)"
  have ne: "?es \<noteq> []" by (rule FlattenLogical_ne)
  have "EmitTest E (LogicalExpr b tok l r) jump_on_true TAKEN FALLTHROUGH s =
      do { s \<leftarrow> LogicalLoop E tok jump_on_true TAKEN FALLTHROUGH (butlast ?es) s;
           EmitTest E (last ?es) jump_on_true TAKEN FALLTHROUGH s }"
    using ne by (simp add: Let_def)
  also have "\<dots> = Logical_truth_table E tok jump_on_true TAKEN FALLTHROUGH ?es s"
    by (rule Logical_table_aux [OF ne assms])
  finally show ?thesis .
qed

theorem LogicalExpr_EmitTest_truth_table_witness:
  "EmitTest example_env logical_example True 7 8 \<lparr>trace = [], labnum = 0\<rparr> =
     Some \<lparr>trace =
       [Rvalue (b_val (var_base (sym_named ''a'' iVARIABLE))), Jmp_eq0 8,
        Rvalue (b_val (var_base (sym_named ''b'' iVARIABLE))), Jmp_ne0 7,
        Rvalue (b_val (var_base (sym_named ''c'' iVARIABLE))), Jmp_ne0 7], labnum = 0\<rparr>"
proof -
  have "Logical_truth_table example_env tlOR True 7 8
          (FlattenLogical tlOR logical_example) \<lparr>trace = [], labnum = 0\<rparr> =
     Some \<lparr>trace =
       [Rvalue (b_val (var_base (sym_named ''a'' iVARIABLE))), Jmp_eq0 8,
        Rvalue (b_val (var_base (sym_named ''b'' iVARIABLE))), Jmp_ne0 7,
        Rvalue (b_val (var_base (sym_named ''c'' iVARIABLE))), Jmp_ne0 7], labnum = 0\<rparr>"
    by (simp add: Logical_truth_table_def logical_example_def FlattenLogical.simps
          rvalue_of_def var_base_def sym_named_def expr_base_def val_def Emit.simps emit_def)
  then show ?thesis
    using LogicalExpr_EmitTest_truth_table [of tlOR example_env expr_base
        "LogicalExpr expr_base tlAND (rvalue_of (sym_named ''a'' iVARIABLE))
          (rvalue_of (sym_named ''b'' iVARIABLE))"
        "rvalue_of (sym_named ''c'' iVARIABLE)" True 7 8 "\<lparr>trace = [], labnum = 0\<rparr>"]
    by (simp add: logical_example_def)
qed

subsection \<open>The sequence of \<^verbatim>\<open>TernaryExpr::DoEmit\<close>\<close>

text \<open>
  The sequence as the specification words it: the condition; \<^verbatim>\<open>pushheaplist\<close>;
  \<^verbatim>\<open>jmp_eq0(flab1)\<close>; the then-branch; \<^verbatim>\<open>pop_static_heaplist\<close>, with \<^verbatim>\<open>setheap_save\<close> of
  its total (in bytes) if and only if the total is not zero; \<^verbatim>\<open>pushheaplist\<close>;
  \<^verbatim>\<open>jumplabel(flab2)\<close>; \<^verbatim>\<open>setlabel(flab1)\<close>; the else-branch; \<^verbatim>\<open>pop_static_heaplist\<close> with
  the same rule; \<^verbatim>\<open>setlabel(flab2)\<close>; and \<^verbatim>\<open>markheap(MEMUSE_DYNAMIC, 0)\<close> if and only if the
  node's value is a \<^verbatim>\<open>REFARRAY\<close> and both totals are not zero. The two labels are the
  next two fresh ones after the condition is emitted.
\<close>

definition TernaryExpr_sequence ::
  "env \<Rightarrow> ExprBase \<Rightarrow> Expr \<Rightarrow> Expr \<Rightarrow> Expr \<Rightarrow> emitter \<Rightarrow> emitter option" where
  "TernaryExpr_sequence E b first second third s =
     do {
       s1 \<leftarrow> Emit E first s;
       let flab1 = labnum s1;
       let flab2 = Suc (labnum s1);
       s2 \<leftarrow> Emit E second
               (emits [Pushheaplist, Jmp_eq0 flab1] (s1\<lparr>labnum := Suc (Suc (labnum s1))\<rparr>));
       let total1 = static_total E (trace s2);
       s3 \<leftarrow> Emit E third
               (emits ([Pop_static_heaplist] @
                       (if total1 \<noteq> 0 then [Setheap_save (total1 * sizeof_cell E)] else []) @
                       [Pushheaplist, Jumplabel flab2, Setlabel flab1]) s2);
       let total2 = static_total E (trace s3);
       Some (emits ([Pop_static_heaplist] @
                    (if total2 \<noteq> 0 then [Setheap_save (total2 * sizeof_cell E)] else []) @
                    [Setlabel flab2] @
                    (if ident (b_val b) = iREFARRAY \<and> total1 \<noteq> 0 \<and> total2 \<noteq> 0
                     then [Markheap MEMUSE_DYNAMIC 0] else [])) s3)
     }"

text \<open>
  Claim C3. For every \<^verbatim>\<open>TernaryExpr\<close>, \<^verbatim>\<open>DoEmit\<close> emits exactly the sequence above, from
  any emitter state.
\<close>

theorem TernaryExpr_DoEmit_sequence:
  "DoEmit E (TernaryExpr b first second third) s = TernaryExpr_sequence E b first second third s"
  by (auto simp: TernaryExpr_sequence_def Let_def getlabel_def pop_static_heaplist_def
        emit_emits emit_if_emits emits_emits emits_def
      split: bind_split prod.splits)

theorem TernaryExpr_DoEmit_sequence_witness:
  "TernaryExpr_sequence example_env (base ternary_example)
     (rvalue_of (sym_named ''x'' iVARIABLE)) (array_call ''f'') (array_call ''g'')
     \<lparr>trace = [], labnum = 0\<rparr> =
   Some \<lparr>trace = ternary_example_code, labnum = 2\<rparr>"
  using TernaryExpr_DoEmit_sequence [of example_env "base ternary_example"
      "rvalue_of (sym_named ''x'' iVARIABLE)" "array_call ''f''" "array_call ''g''"
      "\<lparr>trace = [], labnum = 0\<rparr>"] ternary_example_run
  by (simp add: ternary_example_def)

subsection \<open>Heap balance\<close>

text \<open>
  Claim C4. Whenever the emission of a \<^verbatim>\<open>TernaryExpr\<close> or of a \<^verbatim>\<open>CallExpr\<close> returns, what
  it has appended to the trace has its \<^verbatim>\<open>pushheaplist\<close> calls and its
  \<^verbatim>\<open>pop_static_heaplist\<close> and \<^verbatim>\<open>popheaplist\<close> calls matched like brackets: each push is
  closed by exactly one pop, and no pop closes a frame that the routine did not open.
\<close>

theorem heap_scopes_balanced:
  "(DoEmit E (TernaryExpr b first second third) s = Some s' \<longrightarrow>
      (\<exists>tr. trace s' = trace s @ tr \<and> heap_depth tr 0 = Some 0)) \<and>
   (DoEmit E (CallExpr b sm argv) s = Some s' \<longrightarrow>
      (\<exists>tr. trace s' = trace s @ tr \<and> heap_depth tr 0 = Some 0))"
  using DoEmit_balanced by blast

theorem heap_scopes_balanced_witness:
  "DoEmit example_env ternary_example \<lparr>trace = [], labnum = 0\<rparr> =
     Some \<lparr>trace = ternary_example_code, labnum = 2\<rparr> \<and>
   heap_depth ternary_example_code 0 = Some 0"
  using heap_scopes_balanced [of example_env "base ternary_example"
      "rvalue_of (sym_named ''x'' iVARIABLE)" "array_call ''f''" "array_call ''g''"
      "\<lparr>trace = [], labnum = 0\<rparr>" "\<lparr>trace = ternary_example_code, labnum = 2\<rparr>"]
    ternary_example_run
  by (simp add: ternary_example_def)

end
